theory Spec2Isabelle
  imports Complex_Main "HOL-Library.Log_Nat" "HOL-Library.Multiset"
begin

section \<open>Data model\<close>

text \<open>
  The \<open>Witness\<close> interface of \<open>types.ts\<close>. JavaScript numbers that hold timestamps, counts and
  nonces are integers here; coordinates and the entropy seed are reals. An optional field
  (\<open>?\<close>, \<open>null\<close>, \<open>undefined\<close>) is an \<open>option\<close>. Field names that clash with Isabelle
  keywords or HOL constants carry the prefix \<open>w_\<close>.
\<close>

record pow_proof =
  nonce :: int
  hash :: string

record coords =
  pos_x :: real
  pos_y :: real

record metadata =
  affect :: "string option"
  entropySeed :: "real option"
  contextTag :: "string option"
  position :: "coords option"
  lastUpdate :: "int option"

record witness =
  w_id :: string
  w_text :: string
  createdAt :: int
  expiresAt :: int
  witnessCount :: int
  lastWitnessed :: int
  contextOf :: "string option"
  w_proof :: "pow_proof option"
  metadata :: metadata

text \<open>
  The object that Gun.js delivers for a witness key (the \<open>gunData\<close> written by \<open>addWitness\<close>
  and \<open>reWitness\<close>). Gun loads a node incrementally, so every field may be absent.
\<close>

record gun_data =
  d_id :: "string option"
  d_text :: "string option"
  d_createdAt :: "int option"
  d_expiresAt :: "int option"
  d_witnessCount :: "int option"
  d_lastWitnessed :: "int option"
  d_contextOf :: "string option"
  d_proofNonce :: "int option"
  d_proofHash :: "string option"
  d_entropySeed :: "real option"
  d_contextTag :: "string option"
  d_positionX :: "real option"
  d_positionY :: "real option"
  d_lastUpdate :: "int option"
  d_updateSeq :: "int option"

text \<open>
  The legacy payload: a JSON string. \<open>JSON.parse\<close> is not modelled; the payload is given by
  its parse result, read at the \<open>Witness\<close> interface with the fields that
  \<open>loadWitnessData\<close> defaults being optional.
\<close>

record raw_witness =
  r_id :: string
  r_text :: string
  r_createdAt :: int
  r_expiresAt :: int
  r_witnessCount :: "int option"
  r_lastWitnessed :: "int option"
  r_contextOf :: "string option"
  r_forkOf :: "string option"
  r_proof :: "pow_proof option"
  r_metadata :: "metadata option"

text \<open>
  What the Gun listener can hand to \<open>loadWitnessData\<close>: a falsy value, a string (with
  \<open>None\<close> when \<open>JSON.parse\<close> throws), an object, or a value of another type.
\<close>

datatype gun_value =
  GFalsy
  | GString "raw_witness option"
  | GObject gun_data
  | GOther

subsection \<open>JavaScript truthiness and defaulting\<close>

definition truthy_int :: "int option \<Rightarrow> bool" where
  "truthy_int v = (case v of None \<Rightarrow> False | Some n \<Rightarrow> n \<noteq> 0)"

definition truthy_real :: "real option \<Rightarrow> bool" where
  "truthy_real v = (case v of None \<Rightarrow> False | Some n \<Rightarrow> n \<noteq> 0)"

definition truthy_str :: "string option \<Rightarrow> bool" where
  "truthy_str v = (case v of None \<Rightarrow> False | Some s \<Rightarrow> s \<noteq> [])"

text \<open>\<open>a || b\<close> on numbers and \<open>a || null\<close> on strings.\<close>

definition or_int :: "int option \<Rightarrow> int \<Rightarrow> int" where
  "or_int a b = (if truthy_int a then the a else b)"

definition or_real :: "real option \<Rightarrow> real \<Rightarrow> real" where
  "or_real a b = (if truthy_real a then the a else b)"

definition or_null :: "string option \<Rightarrow> string option" where
  "or_null a = (if truthy_str a then a else None)"

section \<open>Decay and expiration\<close>

text \<open>\<open>DEV_MODE\<close> is the constant \<open>false\<close> of the module.\<close>

definition DEV_MODE :: bool where
  "DEV_MODE = False"

text \<open>
  \<open>calculateCurrentWitnessCount\<close>, with the reading of \<open>Date.now()\<close> as the first argument.
  \<open>Math.floor\<close> of the quotient is \<open>div\<close> on \<open>int\<close>, which rounds towards minus infinity as
  \<open>Math.floor\<close> does.
\<close>

definition calculateCurrentWitnessCount :: "int \<Rightarrow> witness \<Rightarrow> int" where
  "calculateCurrentWitnessCount now w =
     (let timeSinceLastWitness = now - lastWitnessed w in
      if DEV_MODE then
        (let decayInterval = 45 * 1000;
             decaySteps = timeSinceLastWitness div decayInterval
         in max 1 (witnessCount w - decaySteps))
      else
        (let decayInterval = 2 * 60 * 1000;
             decaySteps = timeSinceLastWitness div decayInterval
         in max 1 (witnessCount w - decaySteps)))"

text \<open>
  \<open>calculateExpiration\<close>. The factor \<open>0.8\<close> is applied as the exact fraction \<open>4/5\<close>: the sum
  it multiplies is a multiple of 5000 for an integer count, and for epoch-millisecond
  timestamps the rounding error of the floating-point product is absorbed by the addition.
\<close>

definition calculateExpiration :: "int \<Rightarrow> int \<Rightarrow> int \<Rightarrow> int" where
  "calculateExpiration now wc lw =
     (if DEV_MODE then
        (let baseLifetime = 90 * 1000;
             entropyBonus = min (wc * 20 * 1000) (3 * 60 * 1000);
             timeSinceLastWitness = now - lw
         in if timeSinceLastWitness > 30 * 1000
            then lw + ((baseLifetime + entropyBonus) * 4) div 5
            else lw + (baseLifetime + entropyBonus))
      else
        (let baseLifetime = 5 * 60 * 1000;
             entropyBonus = min (wc * 15 * 1000) (10 * 60 * 1000);
             timeSinceLastWitness = now - lw
         in if timeSinceLastWitness > 5 * 60 * 1000
            then lw + ((baseLifetime + entropyBonus) * 4) div 5
            else lw + (baseLifetime + entropyBonus)))"

definition getActiveWitnesses :: "int \<Rightarrow> witness list \<Rightarrow> witness list" where
  "getActiveWitnesses now witnessArray = filter (\<lambda>w. expiresAt w > now) witnessArray"

section \<open>Proof of work\<close>

subsection \<open>Number formatting\<close>

function dec_digits :: "nat \<Rightarrow> string" where
  "dec_digits n =
     (if n < 10 then [''0123456789'' ! n]
      else dec_digits (n div 10) @ [''0123456789'' ! (n mod 10)])"
  by pat_completeness auto
termination
  by (relation "measure (\<lambda>n. n)") auto

function hex_digits :: "nat \<Rightarrow> string" where
  "hex_digits n =
     (if n < 16 then [''0123456789abcdef'' ! n]
      else hex_digits (n div 16) @ [''0123456789abcdef'' ! (n mod 16)])"
  by pat_completeness auto
termination
  by (relation "measure (\<lambda>n. n)") auto

declare dec_digits.simps [simp del] hex_digits.simps [simp del]

text \<open>
  String conversion of an integer-valued number, as in \<open>text + nonce\<close>, and
  \<open>Number.prototype.toString(16)\<close>: a negative number is a minus sign followed by the digits
  of its magnitude.
\<close>

definition js_number_to_string :: "int \<Rightarrow> string" where
  "js_number_to_string n =
     (if n < 0 then CHR ''-'' # dec_digits (nat (- n)) else dec_digits (nat n))"

definition js_toString16 :: "int \<Rightarrow> string" where
  "js_toString16 n =
     (if n < 0 then CHR ''-'' # hex_digits (nat (- n)) else hex_digits (nat n))"

subsection \<open>32-bit and double-precision arithmetic\<close>

text \<open>
  \<open>x & 0xffffffff\<close> and \<open>x << 5\<close> convert an integer-valued number to a signed 32-bit
  integer (ToInt32).
\<close>

definition to_int32 :: "int \<Rightarrow> int" where
  "to_int32 v = (v + 2147483648) mod 4294967296 - 2147483648"

text \<open>
  \<open>hash * 1103515245 + 12345\<close> is arithmetic on IEEE doubles: the product of a 32-bit value
  and the multiplier exceeds \<open>2 ^ 53\<close>, so each operation rounds its exact result to 53
  significant bits, ties to even. \<open>round_at k\<close> rounds to a multiple of \<open>2 ^ k\<close>;
  \<open>round_double\<close> picks \<open>k\<close> from the magnitude (no overflow to infinity can occur at the
  magnitudes of this program).
\<close>

definition round_at :: "nat \<Rightarrow> int \<Rightarrow> int" where
  "round_at k n =
     (let a = \<bar>n\<bar>;
          q = a div 2 ^ k;
          r = a mod 2 ^ k;
          q' = (if 2 ^ k < 2 * r \<or> (2 * r = 2 ^ k \<and> odd q) then q + 1 else q)
      in sgn n * (q' * 2 ^ k))"

definition round_double :: "int \<Rightarrow> int" where
  "round_double n =
     (if \<bar>n\<bar> < 9007199254740992 then n else round_at (nat (bitlen \<bar>n\<bar>) - 53) n)"

subsection \<open>The hash\<close>

text \<open>\<open>hash = ((hash << 5) - hash + data.charCodeAt(j)) & 0xffffffff\<close>\<close>

definition roll :: "int \<Rightarrow> char \<Rightarrow> int" where
  "roll h c = to_int32 (to_int32 (h * 32) - h + of_char c)"

text \<open>\<open>hash = (hash * 1103515245 + 12345) & 0xffffffff\<close>\<close>

definition mix :: "int \<Rightarrow> int" where
  "mix h = to_int32 (round_double (round_double (h * 1103515245) + 12345))"

text \<open>The two stages shared by \<open>computeProofOfWork\<close> and \<open>verifyProofOfWork\<close>.\<close>

definition pow_value :: "string \<Rightarrow> int" where
  "pow_value d = (mix ^^ 10000) (foldl roll 0 d)"

text \<open>
  \<open>computeProofOfWork\<close>. The clock is the list of successive readings of \<open>Date.now()\<close>: the
  first is \<open>startTime\<close>, each later one is the reading after one nonce. The batching through
  \<open>setTimeout\<close> does not change the result. \<open>None\<close> means that the promise has not resolved
  within the readings given.
\<close>

fun compute_loop :: "string \<Rightarrow> int \<Rightarrow> int \<Rightarrow> int list \<Rightarrow> pow_proof option" where
  "compute_loop t startTime n [] = None"
| "compute_loop t startTime n (reading # later) =
     (let d = t @ js_number_to_string n;
          h = pow_value d;
          n' = n + 1
      in if reading - startTime \<ge> 1000
         then Some \<lparr>nonce = n', hash = js_toString16 h\<rparr>
         else compute_loop t startTime n' later)"

definition computeProofOfWork :: "string \<Rightarrow> int list \<Rightarrow> pow_proof option" where
  "computeProofOfWork t clock =
     (case clock of [] \<Rightarrow> None | startTime # later \<Rightarrow> compute_loop t startTime 0 later)"

definition verifyProofOfWork :: "string \<Rightarrow> pow_proof \<Rightarrow> bool" where
  "verifyProofOfWork t p =
     (js_toString16 (pow_value (t @ js_number_to_string (nonce p))) = hash p)"

text \<open>
  The encoding used by the sibling implementations (\<open>sync-test/+page.svelte\<close>,
  \<open>verify-witness.js\<close>): \<open>(hash >>> 0).toString(16)\<close>.
\<close>

definition js_toString16_unsigned :: "int \<Rightarrow> string" where
  "js_toString16_unsigned n = hex_digits (nat (n mod 4294967296))"

section \<open>The store and its transports\<close>

datatype msg_type = NEW_WITNESS | UPDATE_WITNESS

record message =
  m_type :: msg_type
  m_data :: witness

text \<open>
  The state one client owns: the Svelte store \<open>witnesses\<close>, whether the tab has a
  \<open>BroadcastChannel\<close>, and a log per transport of what has been written to it
  (\<open>syncChannel.postMessage\<close>, \<open>broadcastToWebRTCPeers\<close>, \<open>fieldNode.get(key).put\<close>).
\<close>

record world =
  witnesses :: "witness list"
  syncChannel :: bool
  tab_posts :: "message list"
  rtc_sends :: "message list"
  gun_puts :: "(string \<times> gun_data) list"

section \<open>Loading a record from Gun (\<open>loadWitnessData\<close>)\<close>

definition starts_with :: "string \<Rightarrow> string \<Rightarrow> bool" where
  "starts_with p k = (take (length p) k = p)"

fun includes_str :: "string \<Rightarrow> string \<Rightarrow> bool" where
  "includes_str sub [] = (sub = [])"
| "includes_str sub (c # cs) = (take (length sub) (c # cs) = sub \<or> includes_str sub cs)"

definition is_digit :: "char \<Rightarrow> bool" where
  "is_digit c = (c \<in> set ''0123456789'')"

text \<open>\<open>key.match(/-v\d+$/)\<close>: the key ends in \<open>-v\<close> followed by one or more digits.\<close>

definition matches_version_suffix :: "string \<Rightarrow> bool" where
  "matches_version_suffix k =
     (let r = rev k in takeWhile is_digit r \<noteq> [] \<and> take 2 (dropWhile is_digit r) = ''v-'')"

definition is_system_key :: "string \<Rightarrow> bool" where
  "is_system_key k =
     (k = ''webrtc-signaling'' \<or> k = ''peers'' \<or> starts_with ''webrtc-'' k \<or> starts_with ''peer-'' k)"

definition is_versioned_key :: "string \<Rightarrow> bool" where
  "is_versioned_key k = (includes_str ''-v'' k \<and> matches_version_suffix k)"

text \<open>\<open>String.prototype.trim\<close> on the white space that fits a \<open>char\<close>.\<close>

definition js_space :: "char \<Rightarrow> bool" where
  "js_space c = ((of_char c :: nat) \<in> {9, 10, 11, 12, 13, 32, 160})"

definition trim :: "string \<Rightarrow> string" where
  "trim t = rev (dropWhile js_space (rev (dropWhile js_space t)))"

text \<open>
  The witness built from a legacy JSON payload. \<open>rnd\<close> is the value that \<open>Math.random()\<close>
  returns if it is called.
\<close>

definition witness_of_raw :: "real \<Rightarrow> raw_witness \<Rightarrow> witness" where
  "witness_of_raw rnd r =
     \<lparr>w_id = r_id r,
      w_text = r_text r,
      createdAt = r_createdAt r,
      expiresAt = r_expiresAt r,
      witnessCount = or_int (r_witnessCount r) 1,
      lastWitnessed = or_int (r_lastWitnessed r) (r_createdAt r),
      contextOf = (if truthy_str (r_contextOf r) then r_contextOf r else or_null (r_forkOf r)),
      w_proof = r_proof r,
      metadata =
        \<lparr>affect = None,
         entropySeed = Some (or_real (case r_metadata r of None \<Rightarrow> None | Some m \<Rightarrow> entropySeed m) rnd),
         contextTag = (case r_metadata r of None \<Rightarrow> None | Some m \<Rightarrow> contextTag m),
         position = (case r_metadata r of None \<Rightarrow> None | Some m \<Rightarrow> position m),
         lastUpdate = None\<rparr>\<rparr>"

text \<open>The witness built from the object format, once the essential fields are there.\<close>

definition witness_of_object :: "real \<Rightarrow> gun_data \<Rightarrow> witness" where
  "witness_of_object rnd d =
     \<lparr>w_id = the (d_id d),
      w_text = the (d_text d),
      createdAt = the (d_createdAt d),
      expiresAt = the (d_expiresAt d),
      witnessCount = or_int (d_witnessCount d) 1,
      lastWitnessed = or_int (d_lastWitnessed d) (the (d_createdAt d)),
      contextOf = or_null (d_contextOf d),
      w_proof =
        (if truthy_int (d_proofNonce d) \<and> truthy_str (d_proofHash d)
         then Some \<lparr>nonce = the (d_proofNonce d), hash = the (d_proofHash d)\<rparr>
         else None),
      metadata =
        \<lparr>affect = None,
         entropySeed = Some (or_real (d_entropySeed d) rnd),
         contextTag = or_null (d_contextTag d),
         position =
           (if truthy_real (d_positionX d) \<and> truthy_real (d_positionY d)
            then Some \<lparr>pos_x = the (d_positionX d), pos_y = the (d_positionY d)\<rparr>
            else None),
         lastUpdate = None\<rparr>\<rparr>"

text \<open>
  The \<open>try\<close> block up to the proof check: \<open>None\<close> is every path that returns without a
  witness (a parse exception, incomplete data, an invalid format).
\<close>

definition parse_data :: "real \<Rightarrow> gun_value \<Rightarrow> witness option" where
  "parse_data rnd v =
     (case v of
        GFalsy \<Rightarrow> None
      | GString None \<Rightarrow> None
      | GString (Some r) \<Rightarrow> Some (witness_of_raw rnd r)
      | GObject d \<Rightarrow>
          (if truthy_str (d_id d) then
             (if \<not> truthy_str (d_text d) \<or> \<not> truthy_int (d_createdAt d) \<or> \<not> truthy_int (d_expiresAt d)
              then None
              else Some (witness_of_object rnd d))
           else None)
      | GOther \<Rightarrow> None)"

text \<open>\<open>data.lastUpdate\<close>: defined only on the object format.\<close>

definition data_lastUpdate :: "gun_value \<Rightarrow> int option" where
  "data_lastUpdate v = (case v of GObject d \<Rightarrow> d_lastUpdate d | _ \<Rightarrow> None)"

text \<open>The condition of the \<open>else if\<close> that decides whether the local copy is replaced.\<close>

definition shouldUpdate :: "int option \<Rightarrow> witness \<Rightarrow> witness \<Rightarrow> bool" where
  "shouldUpdate lu existing w =
     (witnessCount existing \<noteq> witnessCount w \<or> expiresAt existing \<noteq> expiresAt w \<or>
      (truthy_int lu \<and>
        (\<not> truthy_int (lastUpdate (metadata existing)) \<or>
         the lu > the (lastUpdate (metadata existing)))))"

text \<open>The record written over the local copy: local position kept, \<open>lastUpdate\<close> recorded.\<close>

definition updatedCopy :: "int option \<Rightarrow> witness \<Rightarrow> witness \<Rightarrow> witness" where
  "updatedCopy lu existing w =
     (let w1 = (if position (metadata existing) \<noteq> None
                then w\<lparr>metadata := (metadata w)\<lparr>position := position (metadata existing)\<rparr>\<rparr>
                else w)
      in w1\<lparr>metadata := (metadata w1)\<lparr>lastUpdate := lu\<rparr>\<rparr>)"

text \<open>The callback given to \<open>witnesses.update\<close>.\<close>

definition mergeWitness :: "int option \<Rightarrow> witness \<Rightarrow> witness list \<Rightarrow> witness list" where
  "mergeWitness lu w current =
     (case find (\<lambda>e. w_id e = w_id w) current of
        None \<Rightarrow> current @ [w]
      | Some existing \<Rightarrow>
          if shouldUpdate lu existing w
          then map (\<lambda>e. if w_id e = w_id w then updatedCopy lu existing w else e) current
          else current)"

text \<open>
  The decay step of \<open>loadWitnessData\<close>: the effective count is assigned to the
  \<open>witnessCount\<close> field of the witness about to be stored.
\<close>

definition applyDecay :: "int \<Rightarrow> witness \<Rightarrow> witness" where
  "applyDecay now w =
     (let effectiveCount = calculateCurrentWitnessCount now w
      in if effectiveCount \<noteq> witnessCount w then w\<lparr>witnessCount := effectiveCount\<rparr> else w)"

text \<open>
  \<open>loadWitnessData(data, key)\<close>. \<open>now\<close> stands for both readings of \<open>Date.now()\<close> made during
  the call. The function writes to no transport.
\<close>

definition loadWitnessData :: "int \<Rightarrow> real \<Rightarrow> gun_value \<Rightarrow> string \<Rightarrow> world \<Rightarrow> world" where
  "loadWitnessData now rnd v k s =
     (if v = GFalsy then s
      else if is_system_key k then s
      else if is_versioned_key k then s
      else case parse_data rnd v of
        None \<Rightarrow> s
      | Some w0 \<Rightarrow>
          if (case w_proof w0 of None \<Rightarrow> False
              | Some p \<Rightarrow> \<not> verifyProofOfWork (trim (w_text w0)) p)
          then s
          else let w = applyDecay now w0
               in if expiresAt w > now
                  then s\<lparr>witnesses := mergeWitness (data_lastUpdate v) w (witnesses s)\<rparr>
                  else s)"

text \<open>The periodic cleanup (\<open>setInterval\<close> of \<open>initializeStore\<close>), as a function of the store.\<close>

definition decayAll :: "int \<Rightarrow> witness list \<Rightarrow> witness list" where
  "decayAll now current = map (applyDecay now) current"

definition cleanupTick :: "int \<Rightarrow> world \<Rightarrow> world" where
  "cleanupTick now s = s\<lparr>witnesses := getActiveWitnesses now (decayAll now (witnesses s))\<rparr>"

section \<open>Receiving from other tabs and from WebRTC peers\<close>

text \<open>
  The two \<open>witnesses.update\<close> callbacks that both handlers use: a new witness is appended
  unless its id is known, an update replaces every stored witness with its id. Neither reads
  the clock, the proof or the ordering fields.
\<close>

definition applyNewWitness :: "witness \<Rightarrow> witness list \<Rightarrow> witness list" where
  "applyNewWitness d current =
     (case find (\<lambda>w. w_id w = w_id d) current of
        None \<Rightarrow> current @ [d]
      | Some existing \<Rightarrow> current)"

definition applyUpdateWitness :: "witness \<Rightarrow> witness list \<Rightarrow> witness list" where
  "applyUpdateWitness d current = map (\<lambda>w. if w_id w = w_id d then d else w) current"

text \<open>
  \<open>syncChannel.onmessage\<close> for the two message types that carry a witness, with the tab's own
  id as the first argument. The other two types, \<open>TAB_PING\<close> and \<open>TAB_PONG\<close>, serve tab
  discovery and do not touch the store.
\<close>

definition onTabMessage :: "string \<Rightarrow> msg_type \<Rightarrow> witness \<Rightarrow> string \<Rightarrow> world \<Rightarrow> world" where
  "onTabMessage myTabId ty d fromTab s =
     (if fromTab = myTabId then s
      else case ty of
        NEW_WITNESS \<Rightarrow> s\<lparr>witnesses := applyNewWitness d (witnesses s)\<rparr>
      | UPDATE_WITNESS \<Rightarrow> s\<lparr>witnesses := applyUpdateWitness d (witnesses s)\<rparr>)"

text \<open>\<open>handleWebRTCMessage(message, fromPeer)\<close>; the peer id is only logged.\<close>

definition handleWebRTCMessage :: "message \<Rightarrow> world \<Rightarrow> world" where
  "handleWebRTCMessage m s =
     (case m_type m of
        NEW_WITNESS \<Rightarrow> s\<lparr>witnesses := applyNewWitness (m_data m) (witnesses s)\<rparr>
      | UPDATE_WITNESS \<Rightarrow> s\<lparr>witnesses := applyUpdateWitness (m_data m) (witnesses s)\<rparr>)"

section \<open>Re-witnessing (\<open>reWitness\<close>)\<close>

text \<open>
  The readings of \<open>Date.now()\<close> that one call makes: for the validation payload, inside
  \<open>computeProofOfWork\<close>, for \<open>now\<close> in the update, inside \<open>calculateExpiration\<close>, and for
  \<open>lastUpdate\<close> in the Gun record.
\<close>

record rw_clock =
  t_validation :: int
  pow_clock :: "int list"
  t_update :: int
  t_expiration :: int
  t_lastUpdate :: int

text \<open>The copy that replaces a witness with the id being re-witnessed.\<close>

definition rewitnessed :: "rw_clock \<Rightarrow> witness \<Rightarrow> witness" where
  "rewitnessed c w =
     (let now = t_update c;
          newWitnessCount = witnessCount w + 1
      in w\<lparr>witnessCount := newWitnessCount,
            lastWitnessed := now,
            expiresAt := calculateExpiration (t_expiration c) newWitnessCount now\<rparr>)"

text \<open>\<open>updatedWitness\<close>: the copy made for the last matching element, \<open>null\<close> if none matched.\<close>

definition updatedWitness :: "string \<Rightarrow> rw_clock \<Rightarrow> witness list \<Rightarrow> witness option" where
  "updatedWitness witnessId c current =
     (case filter (\<lambda>w. w_id w = witnessId) current of
        [] \<Rightarrow> None
      | m # ms \<Rightarrow> Some (rewitnessed c (last (m # ms))))"

definition gunData_of :: "witness \<Rightarrow> int \<Rightarrow> gun_data" where
  "gunData_of u t =
     \<lparr>d_id = Some (w_id u),
      d_text = Some (w_text u),
      d_createdAt = Some (createdAt u),
      d_expiresAt = Some (expiresAt u),
      d_witnessCount = Some (witnessCount u),
      d_lastWitnessed = Some (lastWitnessed u),
      d_contextOf = or_null (contextOf u),
      d_proofNonce =
        (case w_proof u of None \<Rightarrow> None
         | Some p \<Rightarrow> if nonce p \<noteq> 0 then Some (nonce p) else None),
      d_proofHash = (case w_proof u of None \<Rightarrow> None | Some p \<Rightarrow> or_null (Some (hash p))),
      d_entropySeed = entropySeed (metadata u),
      d_contextTag = or_null (contextTag (metadata u)),
      d_positionX =
        (case position (metadata u) of None \<Rightarrow> None
         | Some xy \<Rightarrow> if pos_x xy \<noteq> 0 then Some (pos_x xy) else None),
      d_positionY =
        (case position (metadata u) of None \<Rightarrow> None
         | Some xy \<Rightarrow> if pos_y xy \<noteq> 0 then Some (pos_y xy) else None),
      d_lastUpdate = Some t,
      d_updateSeq = Some (witnessCount u)\<rparr>"

text \<open>
  Everything after \<open>await computeProofOfWork\<close>, on the state found when the promise
  resolves. The proof just computed is not an argument: the source only logs it.
\<close>

definition reWitness_finish :: "string \<Rightarrow> rw_clock \<Rightarrow> world \<Rightarrow> world" where
  "reWitness_finish witnessId c s =
     (let updated = map (\<lambda>w. if w_id w = witnessId then rewitnessed c w else w) (witnesses s);
          s1 = s\<lparr>witnesses := updated\<rparr>
      in case updatedWitness witnessId c (witnesses s) of
           None \<Rightarrow> s1
         | Some u \<Rightarrow>
             (let msg = \<lparr>m_type = UPDATE_WITNESS, m_data = u\<rparr>;
                  s2 = (if syncChannel s1 then s1\<lparr>tab_posts := tab_posts s1 @ [msg]\<rparr> else s1);
                  s3 = s2\<lparr>rtc_sends := rtc_sends s2 @ [msg]\<rparr>;
                  gunData = gunData_of u (t_lastUpdate c);
                  versionedKey = witnessId @ ''-v'' @ js_number_to_string (witnessCount u)
              in s3\<lparr>gun_puts := gun_puts s3 @ [(witnessId, gunData), (versionedKey, gunData)]\<rparr>))"

text \<open>
  The outcome of a call: it returns with a state and the proof it computed (if it computed
  one), or its promise stays pending because the proof of work has not resolved.
\<close>

datatype rewitness_result = Returned world "pow_proof option" | Pending

text \<open>
  \<open>reWitness(witnessId)\<close> called in state \<open>s\<close>; \<open>resumed\<close> is the state at the moment the
  proof of work resolves (other handlers may have run while the call was suspended).
\<close>

definition reWitness :: "string \<Rightarrow> rw_clock \<Rightarrow> world \<Rightarrow> world \<Rightarrow> rewitness_result" where
  "reWitness witnessId c s resumed =
     (case find (\<lambda>w. w_id w = witnessId) (witnesses s) of
        None \<Rightarrow> Returned s None
      | Some witnessToValidate \<Rightarrow>
          (let validationData =
                 ''rewitness:'' @ witnessId @ '':'' @ js_number_to_string (t_validation c)
           in case computeProofOfWork validationData (pow_clock c) of
                None \<Rightarrow> Pending
              | Some p \<Rightarrow> Returned (reWitness_finish witnessId c resumed) (Some p)))"

section \<open>Capacity eviction\<close>

text \<open>
  The cleanup timer of \<open>sync-test/+page.svelte\<close>: the callback it passes to
  \<open>witnesses.update\<close>, with the capacity as a parameter. The memory-pressure check that the
  timer runs first (\<open>checkMemoryUsage\<close>) is a separate update of the store and is not part
  of this function.
\<close>

definition MAX_WITNESSES_IN_MEMORY :: nat where
  "MAX_WITNESSES_IN_MEMORY = 200"

definition touch :: "witness \<Rightarrow> int" where
  "touch w = max (lastWitnessed w) (createdAt w)"

text \<open>
  \<open>active.sort((a, b) => touch(b) - touch(a))\<close>: a stable sort by descending touch time.
\<close>

definition sortByTouchDesc :: "witness list \<Rightarrow> witness list" where
  "sortByTouchDesc active = sort_key (\<lambda>w. - touch w) active"

definition trimToCapacity :: "nat \<Rightarrow> witness list \<Rightarrow> witness list" where
  "trimToCapacity cap active =
     (if length active > cap then take cap (sortByTouchDesc active) else active)"

definition cleanupTimer_update :: "nat \<Rightarrow> int \<Rightarrow> witness list \<Rightarrow> witness list" where
  "cleanupTimer_update cap now current =
     trimToCapacity cap (getActiveWitnesses now (decayAll now current))"

text \<open>
  \<open>emergencyCleanup\<close> of \<open>witnessStore-emergency.ts\<close>, with \<open>EMERGENCY_CONFIG.maxWitnesses\<close>
  as a parameter. It returns the new store and the ids deleted from Gun (\<open>put(null)\<close>).
  \<open>sorted.slice(-cap)\<close> is the whole array when \<open>cap\<close> is 0.
\<close>

definition EMERGENCY_maxWitnesses :: nat where
  "EMERGENCY_maxWitnesses = 50"

definition emergencyCleanup :: "nat \<Rightarrow> int \<Rightarrow> witness list \<Rightarrow> witness list \<times> string list" where
  "emergencyCleanup cap now current =
     (let expired = filter (\<lambda>w. expiresAt w \<le> now) current;
          active = filter (\<lambda>w. expiresAt w > now) current
      in if length active > cap then
           (let sorted = sort_key createdAt active;
                toRemove = take (length active - cap) sorted
            in (if cap = 0 then sorted else drop (length sorted - cap) sorted,
                map w_id expired @ map w_id toRemove))
         else (active, map w_id expired))"

section \<open>Definitions used to state the properties\<close>

text \<open>
  The ordering of the specification, in its words: the ordering key
  \<open>(witnessCount, lastUpdate)\<close> compared lexicographically.
\<close>

definition key_greater :: "int \<times> int \<Rightarrow> int \<times> int \<Rightarrow> bool" where
  "key_greater a b = (fst a > fst b \<or> (fst a = fst b \<and> snd a > snd b))"

text \<open>The \<open>expiresAt\<close> carried by an incoming payload, if it carries one.\<close>

definition incoming_expiresAt :: "gun_value \<Rightarrow> int option" where
  "incoming_expiresAt v =
     (case v of
        GObject d \<Rightarrow> d_expiresAt d
      | GString (Some r) \<Rightarrow> Some (r_expiresAt r)
      | _ \<Rightarrow> None)"



text \<open>The entries that \<open>slice(0, cap)\<close> leaves out of the trimmed store.\<close>

definition evicted :: "nat \<Rightarrow> witness list \<Rightarrow> witness list" where
  "evicted cap active = (if length active > cap then drop cap (sortByTouchDesc active) else [])"


text \<open>The entries that \<open>emergencyCleanup\<close> removes for capacity (\<open>toRemove\<close>).\<close>

definition emergency_removed :: "nat \<Rightarrow> int \<Rightarrow> witness list \<Rightarrow> witness list" where
  "emergency_removed cap now current =
     (let active = filter (\<lambda>w. expiresAt w > now) current
      in if length active > cap then take (length active - cap) (sort_key createdAt active)
         else [])"

text \<open>The two components of a call of \<open>reWitness\<close> that returned.\<close>

definition returned_world :: "rewitness_result \<Rightarrow> world option" where
  "returned_world r = (case r of Returned s p \<Rightarrow> Some s | Pending \<Rightarrow> None)"

definition returned_proof :: "rewitness_result \<Rightarrow> pow_proof option" where
  "returned_proof r = (case r of Returned s p \<Rightarrow> p | Pending \<Rightarrow> None)"

text \<open>
  \<open>round_double\<close> with the case analysis on the magnitude written out, for arguments below
  \<open>2 ^ 62\<close>; used to evaluate \<open>mix\<close> on numerals.
\<close>

definition round_fast :: "int \<Rightarrow> int" where
  "round_fast n =
     (let a = \<bar>n\<bar> in
      if a < 9007199254740992 then n
      else if a < 18014398509481984 then round_at 1 n
      else if a < 36028797018963968 then round_at 2 n
      else if a < 72057594037927936 then round_at 3 n
      else if a < 144115188075855872 then round_at 4 n
      else if a < 288230376151711744 then round_at 5 n
      else if a < 576460752303423488 then round_at 6 n
      else if a < 1152921504606846976 then round_at 7 n
      else if a < 2305843009213693952 then round_at 8 n
      else round_at 9 n)"

subsection \<open>Concrete records for the examples\<close>

definition example_witness :: "string \<Rightarrow> int \<Rightarrow> int \<Rightarrow> int \<Rightarrow> int option \<Rightarrow> witness" where
  "example_witness i cnt lw ex lu =
     \<lparr>w_id = i, w_text = ''hello'', createdAt = 1, expiresAt = ex, witnessCount = cnt,
      lastWitnessed = lw, contextOf = None, w_proof = None,
      metadata = \<lparr>affect = None, entropySeed = Some 1, contextTag = None, position = None,
                  lastUpdate = lu\<rparr>\<rparr>"

definition example_data :: "string \<Rightarrow> int \<Rightarrow> int \<Rightarrow> int \<Rightarrow> int option \<Rightarrow> gun_data" where
  "example_data i cnt lw ex lu =
     \<lparr>d_id = Some i, d_text = Some ''hello'', d_createdAt = Some 1, d_expiresAt = Some ex,
      d_witnessCount = Some cnt, d_lastWitnessed = Some lw, d_contextOf = None,
      d_proofNonce = None, d_proofHash = None, d_entropySeed = Some 1, d_contextTag = None,
      d_positionX = None, d_positionY = None, d_lastUpdate = lu, d_updateSeq = None\<rparr>"

definition example_world :: "witness list \<Rightarrow> world" where
  "example_world ws =
     \<lparr>witnesses = ws, syncChannel = True, tab_posts = [], rtc_sends = [], gun_puts = []\<rparr>"

definition example_clock :: rw_clock where
  "example_clock =
     \<lparr>t_validation = 1000000, pow_clock = [1000000, 1001000], t_update = 1001001,
      t_expiration = 1001001, t_lastUpdate = 1001002\<rparr>"

section \<open>Properties\<close>

subsection \<open>Auxiliary facts\<close>

lemma find_SomeD: "find P xs = Some x \<Longrightarrow> x \<in> set xs \<and> P x"
  by (induction xs) (auto split: if_splits)

lemma find_map_same:
  assumes "find P xs = Some e" "\<And>x. P (g x) = P x"
  shows "find P (map g xs) = Some (g e)"
  using assms by (induction xs) (auto split: if_splits)


lemma world_witnesses_update_eq:
  "s\<lparr>witnesses := ws\<rparr> = s \<longleftrightarrow> ws = witnesses s"
  by (cases s) auto

lemma applyDecay_fields:
  "witnessCount (applyDecay now w) = calculateCurrentWitnessCount now w"
  "w_id (applyDecay now w) = w_id w"
  "expiresAt (applyDecay now w) = expiresAt w"
  "metadata (applyDecay now w) = metadata w"
  "w_proof (applyDecay now w) = w_proof w"
  "w_text (applyDecay now w) = w_text w"
  by (simp_all add: applyDecay_def Let_def)

lemma updatedCopy_fields:
  "w_id (updatedCopy lu e w) = w_id w"
  "witnessCount (updatedCopy lu e w) = witnessCount w"
  "expiresAt (updatedCopy lu e w) = expiresAt w"
  "lastUpdate (metadata (updatedCopy lu e w)) = lu"
  by (simp_all add: updatedCopy_def Let_def)


lemma updatedCopy_differs:
  assumes "shouldUpdate lu e w"
  shows "updatedCopy lu e w \<noteq> e"
proof
  assume eq: "updatedCopy lu e w = e"
  have "witnessCount e = witnessCount w" "expiresAt e = expiresAt w" "lastUpdate (metadata e) = lu"
    using updatedCopy_fields(2-4) [of lu e w] by (simp_all add: eq)
  with assms show False
    by (auto simp: shouldUpdate_def)
qed

lemma mergeWitness_changes_iff:
  assumes "find (\<lambda>e. w_id e = w_id w) ws = Some existing"
  shows "mergeWitness lu w ws \<noteq> ws \<longleftrightarrow> shouldUpdate lu existing w"
proof
  assume "mergeWitness lu w ws \<noteq> ws"
  with assms show "shouldUpdate lu existing w"
    by (auto simp: mergeWitness_def split: if_splits)
next
  assume su: "shouldUpdate lu existing w"
  from assms have mem: "existing \<in> set ws" and idw: "w_id existing = w_id w"
    using find_SomeD [OF assms] by simp_all
  show "mergeWitness lu w ws \<noteq> ws"
  proof
    assume "mergeWitness lu w ws = ws"
    with assms su have "map (\<lambda>e. if w_id e = w_id w then updatedCopy lu existing w else e) ws = map (\<lambda>e. e) ws"
      by (simp add: mergeWitness_def)
    then have "\<forall>e\<in>set ws. (if w_id e = w_id w then updatedCopy lu existing w else e) = e"
      by (simp only: map_eq_conv)
    with mem idw have "updatedCopy lu existing w = existing"
      by auto
    with updatedCopy_differs [OF su] show False by simp
  qed
qed

lemma loadWitnessData_accepted:
  assumes "parse_data rnd v = Some w0"
    and "\<not> is_system_key k" "\<not> is_versioned_key k"
    and "\<forall>p. w_proof w0 = Some p \<longrightarrow> verifyProofOfWork (trim (w_text w0)) p"
    and "expiresAt w0 > now"
  shows "loadWitnessData now rnd v k s =
         s\<lparr>witnesses := mergeWitness (data_lastUpdate v) (applyDecay now w0) (witnesses s)\<rparr>"
proof -
  from assms(1) have "v \<noteq> GFalsy"
    by (auto simp: parse_data_def)
  moreover have "expiresAt (applyDecay now w0) > now"
    using assms(5) by (simp add: applyDecay_def Let_def)
  ultimately show ?thesis
    using assms by (auto simp: loadWitnessData_def Let_def split: option.splits)
qed


lemma parse_data_expiresAt:
  assumes "parse_data rnd v = Some w"
  shows "incoming_expiresAt v = Some (expiresAt w)"
  using assms
  by (auto simp: parse_data_def incoming_expiresAt_def witness_of_raw_def witness_of_object_def
      truthy_int_def split: gun_value.splits option.splits if_splits)









lemma expired_on_arrival_dropped:
  assumes "incoming_expiresAt v = Some e" "e \<le> now"
  shows "loadWitnessData now rnd v k s = s"
proof (cases "parse_data rnd v")
  case None
  then show ?thesis by (simp add: loadWitnessData_def)
next
  case (Some w0)
  with assms have "\<not> expiresAt (applyDecay now w0) > now"
    by (simp add: applyDecay_fields parse_data_expiresAt)
  with Some show ?thesis
    by (simp add: loadWitnessData_def Let_def)
qed

subsection \<open>The merge rule\<close>

text \<open>
  The code does not compare ordering keys: a record for a known id with the lower key
  \<open>(2, 100)\<close> replaces the local copy with key \<open>(3, 200)\<close>.
\<close>

theorem merge_accepts_smaller_key:
  "\<not> key_greater (2, 100) (3, 200)
   \<and> map witnessCount (witnesses (example_world [example_witness ''a'' 3 1000000 2000000 (Some 200)])) = [3]
   \<and> map witnessCount
        (witnesses (loadWitnessData 1000000 0
           (GObject (example_data ''a'' 2 1000000 2000000 (Some 100))) ''a''
           (example_world [example_witness ''a'' 3 1000000 2000000 (Some 200)])))
      = [2]"
  by (simp add: key_greater_def loadWitnessData_def is_system_key_def is_versioned_key_def
      starts_with_def parse_data_def witness_of_object_def truthy_str_def truthy_int_def
      truthy_real_def or_int_def or_real_def or_null_def applyDecay_def
      calculateCurrentWitnessCount_def DEV_MODE_def mergeWitness_def shouldUpdate_def
      updatedCopy_def data_lastUpdate_def example_world_def example_witness_def example_data_def)

text \<open>
  Claim C1, as the code has it. For a record that passes the earlier stages and whose id is
  present locally, the local copy is replaced exactly when the incoming count (after decay)
  differs from the local count, or \<open>expiresAt\<close> differs, or the incoming \<open>lastUpdate\<close> is set
  and the local one is unset or smaller; the replacing record is then the incoming one with
  the local position and the incoming \<open>lastUpdate\<close>. So with equal counts and equal
  \<open>expiresAt\<close> the higher \<open>lastUpdate\<close> wins and a lower one is dropped.
\<close>

theorem merge_rule_of_the_code:
  assumes "parse_data rnd v = Some w0"
    and "\<not> is_system_key k" "\<not> is_versioned_key k"
    and "\<forall>p. w_proof w0 = Some p \<longrightarrow> verifyProofOfWork (trim (w_text w0)) p"
    and "expiresAt w0 > now"
    and "find (\<lambda>e. w_id e = w_id w0) (witnesses s) = Some existing"
  shows "(loadWitnessData now rnd v k s \<noteq> s \<longleftrightarrow>
            witnessCount existing \<noteq> calculateCurrentWitnessCount now w0 \<or>
            expiresAt existing \<noteq> expiresAt w0 \<or>
            (truthy_int (data_lastUpdate v) \<and>
              (\<not> truthy_int (lastUpdate (metadata existing)) \<or>
               the (data_lastUpdate v) > the (lastUpdate (metadata existing)))))
         \<and> (loadWitnessData now rnd v k s \<noteq> s \<longrightarrow>
              find (\<lambda>e. w_id e = w_id w0) (witnesses (loadWitnessData now rnd v k s))
                = Some (updatedCopy (data_lastUpdate v) existing (applyDecay now w0)))"
proof -
  let ?w = "applyDecay now w0"
  let ?lu = "data_lastUpdate v"
  have load: "loadWitnessData now rnd v k s = s\<lparr>witnesses := mergeWitness ?lu ?w (witnesses s)\<rparr>"
    by (rule loadWitnessData_accepted [OF assms(1-5)])
  have f: "find (\<lambda>e. w_id e = w_id ?w) (witnesses s) = Some existing"
    using assms(6) by (simp add: applyDecay_fields)
  have ch: "loadWitnessData now rnd v k s \<noteq> s \<longleftrightarrow> shouldUpdate ?lu existing ?w"
    using mergeWitness_changes_iff [OF f, of ?lu]
    by (simp add: load world_witnesses_update_eq)
  have su: "shouldUpdate ?lu existing ?w \<longleftrightarrow>
            witnessCount existing \<noteq> calculateCurrentWitnessCount now w0 \<or>
            expiresAt existing \<noteq> expiresAt w0 \<or>
            (truthy_int ?lu \<and>
              (\<not> truthy_int (lastUpdate (metadata existing)) \<or>
               the ?lu > the (lastUpdate (metadata existing))))"
    by (simp add: shouldUpdate_def applyDecay_fields)
  have found: "find (\<lambda>e. w_id e = w_id w0) (witnesses (loadWitnessData now rnd v k s))
                = Some (updatedCopy ?lu existing ?w)"
    if "shouldUpdate ?lu existing ?w"
  proof -
    let ?g = "\<lambda>e. if w_id e = w_id ?w then updatedCopy ?lu existing ?w else e"
    have "witnesses (loadWitnessData now rnd v k s) = map ?g (witnesses s)"
      using f that by (simp add: load mergeWitness_def)
    moreover have "find (\<lambda>e. w_id e = w_id w0) (map ?g (witnesses s)) = Some (?g existing)"
      by (rule find_map_same [OF assms(6)]) (simp add: applyDecay_fields updatedCopy_fields)
    moreover have "w_id existing = w_id w0"
      using find_SomeD [OF assms(6)] by simp
    ultimately show ?thesis
      by (simp add: applyDecay_fields)
  qed
  show ?thesis
    using ch su found by blast
qed

theorem merge_rule_of_the_code_witness:
  "parse_data 0 (GObject (example_data ''a'' 2 1000000 2000000 (Some 90)))
     = Some (witness_of_object 0 (example_data ''a'' 2 1000000 2000000 (Some 90)))
   \<and> \<not> is_system_key ''a'' \<and> \<not> is_versioned_key ''a''
   \<and> expiresAt (witness_of_object 0 (example_data ''a'' 2 1000000 2000000 (Some 90))) > 1000000
   \<and> find (\<lambda>e. w_id e = ''a'')
        (witnesses (example_world [example_witness ''a'' 2 1000000 2000000 (Some 100)]))
      = Some (example_witness ''a'' 2 1000000 2000000 (Some 100))
   \<and> loadWitnessData 1000000 0 (GObject (example_data ''a'' 2 1000000 2000000 (Some 90))) ''a''
        (example_world [example_witness ''a'' 2 1000000 2000000 (Some 100)])
      = example_world [example_witness ''a'' 2 1000000 2000000 (Some 100)]"
proof -
  let ?d = "example_data ''a'' 2 1000000 2000000 (Some 90)"
  let ?w0 = "witness_of_object 0 ?d"
  let ?e = "example_witness ''a'' 2 1000000 2000000 (Some 100)"
  let ?s = "example_world [?e]"
  have h1: "parse_data 0 (GObject ?d) = Some ?w0"
    by (simp add: parse_data_def example_data_def truthy_str_def truthy_int_def)
  have h2: "\<not> is_system_key ''a''"
    by (simp add: is_system_key_def starts_with_def)
  have h3: "\<not> is_versioned_key ''a''"
    by (simp add: is_versioned_key_def)
  have h4: "\<forall>p. w_proof ?w0 = Some p \<longrightarrow> verifyProofOfWork (trim (w_text ?w0)) p"
    by (simp add: witness_of_object_def example_data_def truthy_int_def)
  have h5: "expiresAt ?w0 > 1000000"
    by (simp add: witness_of_object_def example_data_def)
  have h6: "find (\<lambda>e. w_id e = w_id ?w0) (witnesses ?s) = Some ?e"
    by (simp add: witness_of_object_def example_data_def example_world_def example_witness_def)
  have id: "w_id ?w0 = ''a''"
    by (simp add: witness_of_object_def example_data_def)
  have rhs: "\<not> (witnessCount ?e \<noteq> calculateCurrentWitnessCount 1000000 ?w0 \<or>
            expiresAt ?e \<noteq> expiresAt ?w0 \<or>
            (truthy_int (data_lastUpdate (GObject ?d)) \<and>
              (\<not> truthy_int (lastUpdate (metadata ?e)) \<or>
               the (data_lastUpdate (GObject ?d)) > the (lastUpdate (metadata ?e)))))"
    by (simp add: witness_of_object_def example_data_def example_witness_def
        calculateCurrentWitnessCount_def DEV_MODE_def or_int_def truthy_int_def data_lastUpdate_def)
  from merge_rule_of_the_code [OF h1 h2 h3 h4 h5 h6] rhs
  have "loadWitnessData 1000000 0 (GObject ?d) ''a'' ?s = ?s"
    by blast
  with h1 h2 h3 h5 h6 id show ?thesis
    by simp
qed

subsection \<open>Idempotence and order of application\<close>




subsection \<open>Expired records\<close>

text \<open>
  A record that has expired is stored when it arrives from a WebRTC peer or from another
  tab: neither handler looks at \<open>expiresAt\<close>.
\<close>

theorem expired_record_from_peer_is_stored:
  "expiresAt (example_witness ''a'' 1 900000 999999 None) \<le> 1000000
   \<and> handleWebRTCMessage
        \<lparr>m_type = NEW_WITNESS, m_data = example_witness ''a'' 1 900000 999999 None\<rparr>
        (example_world [])
      = example_world [example_witness ''a'' 1 900000 999999 None]
   \<and> onTabMessage ''tab1'' UPDATE_WITNESS (example_witness ''a'' 1 900000 999999 None) ''tab2''
        (example_world [example_witness ''a'' 1 900000 2000000 None])
      = example_world [example_witness ''a'' 1 900000 999999 None]"
  by (simp add: handleWebRTCMessage_def onTabMessage_def applyNewWitness_def
      applyUpdateWitness_def example_world_def example_witness_def)

text \<open>
  Claim C6, as the code has it. A record that the Gun listener delivers with an
  \<open>expiresAt\<close> not after the current time changes nothing: the store and every transport
  log are as before. A record from a WebRTC peer or from another tab is applied whatever its
  \<open>expiresAt\<close>: a new witness with an unknown id is appended, an update replaces the stored
  witnesses with its id. No witness that has expired survives the next cleanup tick.
\<close>

theorem expiry_check_by_transport:
  "(\<forall>e. incoming_expiresAt v = Some e \<and> e \<le> now \<longrightarrow> loadWitnessData now rnd v k s = s)
   \<and> (w_id d \<notin> w_id ` set (witnesses s) \<longrightarrow>
        handleWebRTCMessage \<lparr>m_type = NEW_WITNESS, m_data = d\<rparr> s
          = s\<lparr>witnesses := witnesses s @ [d]\<rparr>)
   \<and> (w_id d \<in> w_id ` set (witnesses s) \<longrightarrow>
        handleWebRTCMessage \<lparr>m_type = NEW_WITNESS, m_data = d\<rparr> s = s)
   \<and> handleWebRTCMessage \<lparr>m_type = UPDATE_WITNESS, m_data = d\<rparr> s
        = s\<lparr>witnesses := map (\<lambda>w. if w_id w = w_id d then d else w) (witnesses s)\<rparr>
   \<and> (fromTab \<noteq> myTabId \<longrightarrow>
        onTabMessage myTabId ty d fromTab s = handleWebRTCMessage \<lparr>m_type = ty, m_data = d\<rparr> s)
   \<and> (\<forall>w\<in>set (witnesses (cleanupTick now s)). expiresAt w > now)"
proof -
  have new_unknown: "handleWebRTCMessage \<lparr>m_type = NEW_WITNESS, m_data = d\<rparr> s
          = s\<lparr>witnesses := witnesses s @ [d]\<rparr>"
    if "w_id d \<notin> w_id ` set (witnesses s)"
  proof -
    from that have "\<forall>x\<in>set (witnesses s). w_id x \<noteq> w_id d"
      by (metis imageI)
    then have "find (\<lambda>w. w_id w = w_id d) (witnesses s) = None"
      by (simp add: find_None_iff)
    then show ?thesis
      by (simp add: handleWebRTCMessage_def applyNewWitness_def)
  qed
  have new_known: "handleWebRTCMessage \<lparr>m_type = NEW_WITNESS, m_data = d\<rparr> s = s"
    if "w_id d \<in> w_id ` set (witnesses s)"
  proof -
    from that obtain x where "find (\<lambda>w. w_id w = w_id d) (witnesses s) = Some x"
      by (cases "find (\<lambda>w. w_id w = w_id d) (witnesses s)") (auto simp: find_None_iff)
    then show ?thesis
      by (simp add: handleWebRTCMessage_def applyNewWitness_def)
  qed
  have upd: "handleWebRTCMessage \<lparr>m_type = UPDATE_WITNESS, m_data = d\<rparr> s
        = s\<lparr>witnesses := map (\<lambda>w. if w_id w = w_id d then d else w) (witnesses s)\<rparr>"
    by (simp add: handleWebRTCMessage_def applyUpdateWitness_def)
  have tab: "onTabMessage myTabId ty d fromTab s = handleWebRTCMessage \<lparr>m_type = ty, m_data = d\<rparr> s"
    if "fromTab \<noteq> myTabId"
    using that by (cases ty) (simp_all add: onTabMessage_def handleWebRTCMessage_def)
  have tick: "\<forall>w\<in>set (witnesses (cleanupTick now s)). expiresAt w > now"
    by (simp add: cleanupTick_def getActiveWitnesses_def)
  show ?thesis
    using expired_on_arrival_dropped [of v _ now rnd k s] new_unknown new_known upd tab tick
    by blast
qed

theorem expiry_check_by_transport_witness:
  "incoming_expiresAt (GObject (example_data ''a'' 5 900000 999999 (Some 7))) = Some 999999
   \<and> (999999::int) \<le> 1000000
   \<and> loadWitnessData 1000000 0 (GObject (example_data ''a'' 5 900000 999999 (Some 7))) ''a''
        (example_world [example_witness ''b'' 1 900000 2000000 None])
      = example_world [example_witness ''b'' 1 900000 2000000 None]
   \<and> ''a'' \<notin> w_id ` set (witnesses (example_world [example_witness ''b'' 1 900000 2000000 None]))
   \<and> handleWebRTCMessage
        \<lparr>m_type = NEW_WITNESS, m_data = example_witness ''a'' 5 900000 999999 None\<rparr>
        (example_world [example_witness ''b'' 1 900000 2000000 None])
      = example_world
          [example_witness ''b'' 1 900000 2000000 None, example_witness ''a'' 5 900000 999999 None]
   \<and> witnesses (cleanupTick 1000000
        (example_world
          [example_witness ''b'' 1 900000 2000000 None, example_witness ''a'' 5 900000 999999 None]))
      = [example_witness ''b'' 1 900000 2000000 None]"
proof -
  let ?v = "GObject (example_data ''a'' 5 900000 999999 (Some 7))"
  let ?s = "example_world [example_witness ''b'' 1 900000 2000000 None]"
  let ?d = "example_witness ''a'' 5 900000 999999 None"
  have h: "incoming_expiresAt ?v = Some 999999"
    by (simp add: incoming_expiresAt_def example_data_def)
  have l: "(999999::int) \<le> 1000000" by simp
  have n: "w_id ?d \<notin> w_id ` set (witnesses ?s)"
    by (simp add: example_world_def example_witness_def)
  note inst = expiry_check_by_transport [of ?v 1000000 0 "''a''" ?s ?d]
  from inst h l have g: "loadWitnessData 1000000 0 ?v ''a'' ?s = ?s"
    by blast
  from inst n have p: "handleWebRTCMessage \<lparr>m_type = NEW_WITNESS, m_data = ?d\<rparr> ?s
      = ?s\<lparr>witnesses := witnesses ?s @ [?d]\<rparr>"
    by blast
  have t: "witnesses (cleanupTick 1000000
        (example_world [example_witness ''b'' 1 900000 2000000 None, ?d]))
      = [example_witness ''b'' 1 900000 2000000 None]"
    by (simp add: cleanupTick_def decayAll_def applyDecay_def getActiveWitnesses_def
        calculateCurrentWitnessCount_def DEV_MODE_def example_world_def example_witness_def)
  have "w_id ?d = ''a''"
    by (simp add: example_witness_def)
  with g p t h l n show ?thesis
    by (simp add: example_world_def)
qed

subsection \<open>Decay\<close>

lemma effective_count_le_stored:
  assumes "lastWitnessed w \<le> now" "1 \<le> witnessCount w"
  shows "calculateCurrentWitnessCount now w = max 1 (witnessCount w - (now - lastWitnessed w) div 120000)"
    and "calculateCurrentWitnessCount now w \<le> witnessCount w"
proof -
  show "calculateCurrentWitnessCount now w = max 1 (witnessCount w - (now - lastWitnessed w) div 120000)"
    by (simp add: calculateCurrentWitnessCount_def DEV_MODE_def)
  have "0 \<le> (now - lastWitnessed w) div 120000"
    using assms(1) by (simp add: pos_imp_zdiv_nonneg_iff)
  then show "calculateCurrentWitnessCount now w \<le> witnessCount w"
    using assms(2) by (simp add: calculateCurrentWitnessCount_def DEV_MODE_def)
qed

text \<open>
  Claim C7. The effective count is the stored count minus the number of full decay intervals
  since \<open>lastWitnessed\<close>, floored at 1, and so never above the stored count, as long as
  \<open>lastWitnessed\<close> is not after \<open>now\<close> (the lemma above). For a witness stamped one second
  after the local clock the floored quotient is \<open>-1\<close> and the function returns 4 for a
  stored count of 3.
\<close>

theorem decay_inflates_future_lastWitnessed:
  "calculateCurrentWitnessCount 1000000 (example_witness ''a'' 3 1001000 2000000 None) = 4"
  by (simp add: calculateCurrentWitnessCount_def DEV_MODE_def example_witness_def)

text \<open>
  Claim C4. The periodic cleanup writes the effective count into the \<open>witnessCount\<close> field of
  the stored witness: a stored count of 5 is 4 after a tick two minutes after
  \<open>lastWitnessed\<close>, and 3 after the next tick ten seconds later, because the second tick
  decays the value the first one stored.
\<close>

theorem cleanup_tick_lowers_stored_count:
  "map witnessCount (witnesses (example_world [example_witness ''a'' 5 1000000 2000000 None])) = [5]
   \<and> map witnessCount
        (witnesses (cleanupTick 1120000 (example_world [example_witness ''a'' 5 1000000 2000000 None])))
      = [4]
   \<and> map witnessCount
        (witnesses (cleanupTick 1130000
           (cleanupTick 1120000 (example_world [example_witness ''a'' 5 1000000 2000000 None]))))
      = [3]"
  by (simp add: cleanupTick_def decayAll_def applyDecay_def getActiveWitnesses_def
      calculateCurrentWitnessCount_def DEV_MODE_def example_world_def example_witness_def)

subsection \<open>Re-witnessing\<close>

text \<open>
  Claim C10. Re-witnessing an id that the store does not hold returns at once, with the
  state as it was and without a proof of work, whatever the clock does.
\<close>

theorem reWitness_unknown_id_is_noop:
  assumes "witnessId \<notin> w_id ` set (witnesses s)"
  shows "reWitness witnessId c s resumed = Returned s None"
proof -
  have "find (\<lambda>w. w_id w = witnessId) (witnesses s) = None"
    using assms by (auto simp: find_None_iff)
  then show ?thesis
    by (simp add: reWitness_def)
qed

theorem reWitness_unknown_id_is_noop_witness:
  "''b'' \<notin> w_id ` set (witnesses (example_world [example_witness ''a'' 1 1000000 2000000 None]))
   \<and> reWitness ''b'' example_clock (example_world [example_witness ''a'' 1 1000000 2000000 None])
         (example_world [])
       = Returned (example_world [example_witness ''a'' 1 1000000 2000000 None]) None"
proof -
  have h: "''b'' \<notin> w_id ` set (witnesses (example_world [example_witness ''a'' 1 1000000 2000000 None]))"
    by (simp add: example_world_def example_witness_def)
  show ?thesis
    using h reWitness_unknown_id_is_noop [OF h] by simp
qed

lemma w_proof_rewitnessed: "w_proof (rewitnessed c w) = w_proof w"
  by (simp add: rewitnessed_def Let_def)

lemma witnesses_reWitness_finish:
  "witnesses (reWitness_finish witnessId c s) =
     map (\<lambda>w. if w_id w = witnessId then rewitnessed c w else w) (witnesses s)"
  by (simp add: reWitness_finish_def Let_def split: option.splits)

lemma reWitness_finish_unmatched:
  assumes "filter (\<lambda>w. w_id w = witnessId) (witnesses s) = []"
  shows "reWitness_finish witnessId c s = s"
proof -
  have "\<forall>w\<in>set (witnesses s). w_id w \<noteq> witnessId"
    using assms by (simp add: filter_empty_conv)
  then have "map (\<lambda>w. if w_id w = witnessId then rewitnessed c w else w) (witnesses s) = witnesses s"
    by (simp add: map_idI)
  then show ?thesis
    using assms by (simp add: reWitness_finish_def updatedWitness_def Let_def)
qed

lemma reWitness_finish_matched:
  assumes "filter (\<lambda>w. w_id w = witnessId) (witnesses s) = m # ms"
  shows "reWitness_finish witnessId c s =
     s\<lparr>witnesses := map (\<lambda>w. if w_id w = witnessId then rewitnessed c w else w) (witnesses s),
        tab_posts := tab_posts s @
          (if syncChannel s
           then [\<lparr>m_type = UPDATE_WITNESS, m_data = rewitnessed c (last (m # ms))\<rparr>] else []),
        rtc_sends := rtc_sends s @
          [\<lparr>m_type = UPDATE_WITNESS, m_data = rewitnessed c (last (m # ms))\<rparr>],
        gun_puts := gun_puts s @
          [(witnessId, gunData_of (rewitnessed c (last (m # ms))) (t_lastUpdate c)),
           (witnessId @ ''-v'' @ js_number_to_string (witnessCount (rewitnessed c (last (m # ms)))),
            gunData_of (rewitnessed c (last (m # ms))) (t_lastUpdate c))]\<rparr>"
  using assms by (simp add: reWitness_finish_def updatedWitness_def Let_def)

lemma gunData_of_proof:
  "d_proofNonce (gunData_of u t) =
     (case w_proof u of None \<Rightarrow> None | Some q \<Rightarrow> if nonce q \<noteq> 0 then Some (nonce q) else None)"
  "d_proofHash (gunData_of u t) =
     (case w_proof u of None \<Rightarrow> None | Some q \<Rightarrow> if hash q \<noteq> [] then Some (hash q) else None)"
  by (simp_all add: gunData_of_def or_null_def truthy_str_def split: option.splits)

text \<open>
  The proof computed by a re-validation has nonce 1 here; the updated record still carries
  the proof with nonce 7 that it had before.
\<close>

theorem reWitness_keeps_old_proof_example:
  "returned_proof
     (reWitness ''a'' example_clock
        (example_world [(example_witness ''a'' 1 1000000 2000000 None)\<lparr>w_proof := Some \<lparr>nonce = 7, hash = ''abc''\<rparr>\<rparr>])
        (example_world [(example_witness ''a'' 1 1000000 2000000 None)\<lparr>w_proof := Some \<lparr>nonce = 7, hash = ''abc''\<rparr>\<rparr>]))
     = Some \<lparr>nonce = 1, hash = js_toString16 (pow_value ''rewitness:a:10000000'')\<rparr>
   \<and> map_option (\<lambda>s. map w_proof (witnesses s))
        (returned_world
          (reWitness ''a'' example_clock
            (example_world [(example_witness ''a'' 1 1000000 2000000 None)\<lparr>w_proof := Some \<lparr>nonce = 7, hash = ''abc''\<rparr>\<rparr>])
            (example_world [(example_witness ''a'' 1 1000000 2000000 None)\<lparr>w_proof := Some \<lparr>nonce = 7, hash = ''abc''\<rparr>\<rparr>])))
     = Some [Some \<lparr>nonce = 7, hash = ''abc''\<rparr>]"
  by (simp add: reWitness_def reWitness_finish_def updatedWitness_def rewitnessed_def
      returned_proof_def returned_world_def computeProofOfWork_def example_clock_def
      example_world_def example_witness_def js_number_to_string_def dec_digits.simps Let_def)

lemma compute_loop_returns:
  assumes "\<exists>r\<in>set later. r - startTime \<ge> 1000"
  shows "\<exists>p. compute_loop t startTime n later = Some p"
  using assms
proof (induction later arbitrary: n)
  case Nil
  then show ?case by simp
next
  case (Cons reading later)
  show ?case
  proof (cases "reading - startTime \<ge> 1000")
    case True
    then show ?thesis by (simp add: Let_def)
  next
    case False
    with Cons.prems have "\<exists>r\<in>set later. r - startTime \<ge> 1000"
      by auto
    from Cons.IH [OF this, of "n + 1"] False show ?thesis
      by (simp add: Let_def)
  qed
qed

text \<open>
  Claim C5, as the code has it. Once the clock has advanced by a second, a re-validation of
  a stored witness returns, having computed a proof over the payload
  \<open>rewitness:id:time\<close>. That proof goes nowhere: every stored record keeps its proof, the
  copy posted to the other tabs and sent to the WebRTC peers carries the proof the record
  had, and the two Gun records carry that proof's nonce and hash (a nonce of 0 or an empty
  hash is written as \<open>null\<close>). If the witness is gone when the proof of work resolves,
  nothing is changed or sent.
\<close>

theorem reWitness_keeps_original_proof:
  assumes "witnessId \<in> w_id ` set (witnesses s)"
    and "pow_clock c = startTime # later"
    and "\<exists>r\<in>set later. r - startTime \<ge> 1000"
  shows "(\<exists>p. reWitness witnessId c s resumed
               = Returned (reWitness_finish witnessId c resumed) (Some p)
             \<and> computeProofOfWork
                 (''rewitness:'' @ witnessId @ '':'' @ js_number_to_string (t_validation c))
                 (pow_clock c) = Some p)
       \<and> map w_proof (witnesses (reWitness_finish witnessId c resumed))
           = map w_proof (witnesses resumed)
       \<and> (filter (\<lambda>w. w_id w = witnessId) (witnesses resumed) = [] \<longrightarrow>
            reWitness_finish witnessId c resumed = resumed)
       \<and> (\<forall>m ms. filter (\<lambda>w. w_id w = witnessId) (witnesses resumed) = m # ms \<longrightarrow>
            (\<exists>u g. w_proof u = w_proof (last (m # ms))
               \<and> tab_posts (reWitness_finish witnessId c resumed)
                   = tab_posts resumed @
                     (if syncChannel resumed then [\<lparr>m_type = UPDATE_WITNESS, m_data = u\<rparr>] else [])
               \<and> rtc_sends (reWitness_finish witnessId c resumed)
                   = rtc_sends resumed @ [\<lparr>m_type = UPDATE_WITNESS, m_data = u\<rparr>]
               \<and> gun_puts (reWitness_finish witnessId c resumed)
                   = gun_puts resumed @
                     [(witnessId, g),
                      (witnessId @ ''-v'' @ js_number_to_string (witnessCount u), g)]
               \<and> d_proofNonce g =
                   (case w_proof (last (m # ms)) of None \<Rightarrow> None
                    | Some q \<Rightarrow> if nonce q \<noteq> 0 then Some (nonce q) else None)
               \<and> d_proofHash g =
                   (case w_proof (last (m # ms)) of None \<Rightarrow> None
                    | Some q \<Rightarrow> if hash q \<noteq> [] then Some (hash q) else None)))"
proof -
  let ?payload = "''rewitness:'' @ witnessId @ '':'' @ js_number_to_string (t_validation c)"
  let ?F = "reWitness_finish witnessId c resumed"
  from assms(1) obtain w where "find (\<lambda>w. w_id w = witnessId) (witnesses s) = Some w"
    by (cases "find (\<lambda>w. w_id w = witnessId) (witnesses s)") (auto simp: find_None_iff)
  moreover from compute_loop_returns [OF assms(3), of ?payload 0]
  obtain p where "computeProofOfWork ?payload (pow_clock c) = Some p"
    by (auto simp: computeProofOfWork_def assms(2))
  ultimately have a: "reWitness witnessId c s resumed = Returned ?F (Some p)
             \<and> computeProofOfWork ?payload (pow_clock c) = Some p"
    by (simp add: reWitness_def Let_def)
  have b: "map w_proof (witnesses ?F) = map w_proof (witnesses resumed)"
    by (simp add: witnesses_reWitness_finish w_proof_rewitnessed)
  have d: "\<exists>u g. w_proof u = w_proof (last (m # ms))
               \<and> tab_posts ?F
                   = tab_posts resumed @
                     (if syncChannel resumed then [\<lparr>m_type = UPDATE_WITNESS, m_data = u\<rparr>] else [])
               \<and> rtc_sends ?F = rtc_sends resumed @ [\<lparr>m_type = UPDATE_WITNESS, m_data = u\<rparr>]
               \<and> gun_puts ?F
                   = gun_puts resumed @
                     [(witnessId, g),
                      (witnessId @ ''-v'' @ js_number_to_string (witnessCount u), g)]
               \<and> d_proofNonce g =
                   (case w_proof (last (m # ms)) of None \<Rightarrow> None
                    | Some q \<Rightarrow> if nonce q \<noteq> 0 then Some (nonce q) else None)
               \<and> d_proofHash g =
                   (case w_proof (last (m # ms)) of None \<Rightarrow> None
                    | Some q \<Rightarrow> if hash q \<noteq> [] then Some (hash q) else None)"
    if f: "filter (\<lambda>w. w_id w = witnessId) (witnesses resumed) = m # ms" for m ms
  proof (intro exI conjI)
    let ?u = "rewitnessed c (last (m # ms))"
    let ?g = "gunData_of ?u (t_lastUpdate c)"
    show "w_proof ?u = w_proof (last (m # ms))"
      by (rule w_proof_rewitnessed)
    show "tab_posts ?F = tab_posts resumed @
        (if syncChannel resumed then [\<lparr>m_type = UPDATE_WITNESS, m_data = ?u\<rparr>] else [])"
      by (simp add: reWitness_finish_matched [OF f])
    show "rtc_sends ?F = rtc_sends resumed @ [\<lparr>m_type = UPDATE_WITNESS, m_data = ?u\<rparr>]"
      by (simp add: reWitness_finish_matched [OF f])
    show "gun_puts ?F = gun_puts resumed @
        [(witnessId, ?g), (witnessId @ ''-v'' @ js_number_to_string (witnessCount ?u), ?g)]"
      by (simp add: reWitness_finish_matched [OF f])
    show "d_proofNonce ?g =
        (case w_proof (last (m # ms)) of None \<Rightarrow> None
         | Some q \<Rightarrow> if nonce q \<noteq> 0 then Some (nonce q) else None)"
      by (simp add: gunData_of_proof w_proof_rewitnessed)
    show "d_proofHash ?g =
        (case w_proof (last (m # ms)) of None \<Rightarrow> None
         | Some q \<Rightarrow> if hash q \<noteq> [] then Some (hash q) else None)"
      by (simp add: gunData_of_proof w_proof_rewitnessed)
  qed
  show ?thesis
    using a b d reWitness_finish_unmatched [of witnessId resumed c] by blast
qed

theorem reWitness_keeps_original_proof_witness:
  "''a'' \<in> w_id ` set (witnesses
     (example_world [(example_witness ''a'' 1 1000000 2000000 None)\<lparr>w_proof := Some \<lparr>nonce = 7, hash = ''abc''\<rparr>\<rparr>]))
   \<and> pow_clock example_clock = [1000000, 1001000]
   \<and> (1001000::int) - 1000000 \<ge> 1000
   \<and> reWitness ''a'' example_clock
     (example_world [(example_witness ''a'' 1 1000000 2000000 None)\<lparr>w_proof := Some \<lparr>nonce = 7, hash = ''abc''\<rparr>\<rparr>])
     (example_world [(example_witness ''a'' 1 1000000 2000000 None)\<lparr>w_proof := Some \<lparr>nonce = 7, hash = ''abc''\<rparr>\<rparr>])
   = Returned
       (reWitness_finish ''a'' example_clock
         (example_world [(example_witness ''a'' 1 1000000 2000000 None)\<lparr>w_proof := Some \<lparr>nonce = 7, hash = ''abc''\<rparr>\<rparr>]))
       (Some \<lparr>nonce = 1, hash = js_toString16 (pow_value ''rewitness:a:10000000'')\<rparr>)
   \<and> map w_proof
        (witnesses
          (reWitness_finish ''a'' example_clock
            (example_world [(example_witness ''a'' 1 1000000 2000000 None)\<lparr>w_proof := Some \<lparr>nonce = 7, hash = ''abc''\<rparr>\<rparr>])))
     = [Some \<lparr>nonce = 7, hash = ''abc''\<rparr>]
   \<and> map (w_proof \<circ> m_data)
        (tab_posts
          (reWitness_finish ''a'' example_clock
            (example_world [(example_witness ''a'' 1 1000000 2000000 None)\<lparr>w_proof := Some \<lparr>nonce = 7, hash = ''abc''\<rparr>\<rparr>])))
     = [Some \<lparr>nonce = 7, hash = ''abc''\<rparr>]
   \<and> map (w_proof \<circ> m_data)
        (rtc_sends
          (reWitness_finish ''a'' example_clock
            (example_world [(example_witness ''a'' 1 1000000 2000000 None)\<lparr>w_proof := Some \<lparr>nonce = 7, hash = ''abc''\<rparr>\<rparr>])))
     = [Some \<lparr>nonce = 7, hash = ''abc''\<rparr>]
   \<and> map (d_proofNonce \<circ> snd)
        (gun_puts
          (reWitness_finish ''a'' example_clock
            (example_world [(example_witness ''a'' 1 1000000 2000000 None)\<lparr>w_proof := Some \<lparr>nonce = 7, hash = ''abc''\<rparr>\<rparr>])))
     = [Some 7, Some 7]
   \<and> map (d_proofHash \<circ> snd)
        (gun_puts
          (reWitness_finish ''a'' example_clock
            (example_world [(example_witness ''a'' 1 1000000 2000000 None)\<lparr>w_proof := Some \<lparr>nonce = 7, hash = ''abc''\<rparr>\<rparr>])))
     = [Some ''abc'', Some ''abc'']"
proof -
  let ?w = "(example_witness ''a'' 1 1000000 2000000 None)\<lparr>w_proof := Some \<lparr>nonce = 7, hash = ''abc''\<rparr>\<rparr>"
  let ?s = "example_world [?w]"
  let ?F = "reWitness_finish ''a'' example_clock ?s"
  let ?p = "\<lparr>nonce = 1, hash = js_toString16 (pow_value ''rewitness:a:10000000'')\<rparr>"
  have h1: "''a'' \<in> w_id ` set (witnesses ?s)"
    by (simp add: example_world_def example_witness_def)
  have h2: "pow_clock example_clock = 1000000 # [1001000]"
    by (simp add: example_clock_def)
  have h3: "\<exists>r\<in>set [1001000]. r - 1000000 \<ge> (1000::int)"
    by simp
  have cp: "computeProofOfWork
      (''rewitness:'' @ ''a'' @ '':'' @ js_number_to_string (t_validation example_clock))
      (pow_clock example_clock) = Some ?p"
    by (simp add: computeProofOfWork_def example_clock_def js_number_to_string_def
        dec_digits.simps Let_def)
  have f: "filter (\<lambda>w. w_id w = ''a'') (witnesses ?s) = ?w # []"
    by (simp add: example_world_def example_witness_def)
  have sc: "syncChannel ?s" "tab_posts ?s = []" "rtc_sends ?s = []" "gun_puts ?s = []"
    "w_proof (last [?w]) = Some \<lparr>nonce = 7, hash = ''abc''\<rparr>"
    by (simp_all add: example_world_def)
  note inst = reWitness_keeps_original_proof [OF h1 h2 h3, of ?s]
  from inst cp
  have r: "reWitness ''a'' example_clock ?s ?s = Returned ?F (Some ?p)"
    and ws: "map w_proof (witnesses ?F) = map w_proof (witnesses ?s)"
    by auto
  from inst f obtain u g where
    "w_proof u = w_proof (last [?w])"
    "tab_posts ?F = tab_posts ?s @ (if syncChannel ?s then [\<lparr>m_type = UPDATE_WITNESS, m_data = u\<rparr>] else [])"
    "rtc_sends ?F = rtc_sends ?s @ [\<lparr>m_type = UPDATE_WITNESS, m_data = u\<rparr>]"
    "gun_puts ?F = gun_puts ?s @ [(''a'', g), (''a'' @ ''-v'' @ js_number_to_string (witnessCount u), g)]"
    "d_proofNonce g = (case w_proof (last [?w]) of None \<Rightarrow> None
        | Some q \<Rightarrow> if nonce q \<noteq> 0 then Some (nonce q) else None)"
    "d_proofHash g = (case w_proof (last [?w]) of None \<Rightarrow> None
        | Some q \<Rightarrow> if hash q \<noteq> [] then Some (hash q) else None)"
    by blast
  then have sent: "map (w_proof \<circ> m_data) (tab_posts ?F) = [Some \<lparr>nonce = 7, hash = ''abc''\<rparr>]"
    "map (w_proof \<circ> m_data) (rtc_sends ?F) = [Some \<lparr>nonce = 7, hash = ''abc''\<rparr>]"
    "map (d_proofNonce \<circ> snd) (gun_puts ?F) = [Some 7, Some 7]"
    "map (d_proofHash \<circ> snd) (gun_puts ?F) = [Some ''abc'', Some ''abc'']"
    by (simp_all add: sc)
  have "map w_proof (witnesses ?s) = [Some \<lparr>nonce = 7, hash = ''abc''\<rparr>]"
    by (simp add: example_world_def)
  with r ws sent h1 h2 show ?thesis
    by simp
qed

subsection \<open>Capacity eviction\<close>

lemma sorted_take_drop:
  assumes "sorted (map f xs)"
  shows "\<forall>a\<in>set (take n xs). \<forall>b\<in>set (drop n xs). f a \<le> f b"
proof -
  have "sorted (map f (take n xs) @ map f (drop n xs))"
    using assms by (simp flip: map_append)
  then show ?thesis
    by (auto simp: sorted_append)
qed

lemma mset_take_drop: "mset (take n xs) + mset (drop n xs) = mset xs"
  by (simp flip: mset_append)

lemma trim_split:
  "mset (trimToCapacity cap active) + mset (evicted cap active) = mset active"
proof (cases "length active > cap")
  case True
  have "mset (take cap (sortByTouchDesc active)) + mset (drop cap (sortByTouchDesc active))
        = mset (sortByTouchDesc active)"
    by (simp flip: mset_append)
  then show ?thesis
    using True by (simp add: trimToCapacity_def evicted_def sortByTouchDesc_def)
next
  case False
  then show ?thesis by (simp add: trimToCapacity_def evicted_def)
qed

lemma trim_order:
  assumes "k \<in> set (trimToCapacity cap active)" "g \<in> set (evicted cap active)"
  shows "touch g \<le> touch k"
proof -
  from assms(2) have big: "length active > cap"
    by (auto simp: evicted_def split: if_splits)
  have "sorted (map (\<lambda>w. - touch w) (sortByTouchDesc active))"
    by (simp add: sortByTouchDesc_def)
  from sorted_take_drop [OF this, of cap] assms big
  have "- touch k \<le> - touch g"
    by (auto simp: trimToCapacity_def evicted_def)
  then show ?thesis by simp
qed

lemma emergency_split:
  assumes "0 < cap"
  shows "mset (fst (emergencyCleanup cap now current)) + mset (emergency_removed cap now current)
         = mset (filter (\<lambda>w. expiresAt w > now) current)"
proof -
  let ?active = "filter (\<lambda>w. expiresAt w > now) current"
  let ?sorted = "sort_key createdAt ?active"
  show ?thesis
  proof (cases "length ?active > cap")
    case True
    have "mset (drop (length ?active - cap) ?sorted) + mset (take (length ?active - cap) ?sorted)
          = mset ?active"
      using mset_take_drop [of "length ?active - cap" ?sorted] by (simp add: add.commute)
    then show ?thesis
      using True assms by (simp add: emergencyCleanup_def emergency_removed_def Let_def)
  next
    case False
    then show ?thesis
      by (simp add: emergencyCleanup_def emergency_removed_def Let_def)
  qed
qed

lemma emergency_order:
  assumes "0 < cap" "k \<in> set (fst (emergencyCleanup cap now current))"
    "g \<in> set (emergency_removed cap now current)"
  shows "createdAt g \<le> createdAt k"
proof -
  let ?active = "filter (\<lambda>w. expiresAt w > now) current"
  let ?sorted = "sort_key createdAt ?active"
  from assms(3) have big: "length ?active > cap"
    by (auto simp: emergency_removed_def Let_def split: if_splits)
  have "sorted (map createdAt ?sorted)"
    by simp
  from sorted_take_drop [OF this, of "length ?active - cap"] assms big
  show ?thesis
    by (auto simp: emergencyCleanup_def emergency_removed_def Let_def)
qed

text \<open>
  \<open>emergencyCleanup\<close> orders by \<open>createdAt\<close> alone: with capacity 2 it removes the witness
  created first although it was touched last.
\<close>

theorem emergency_cleanup_evicts_by_creation:
  "fst (emergencyCleanup 2 1000000
      [(example_witness ''a'' 1 30 2000000 None)\<lparr>createdAt := 1\<rparr>,
       (example_witness ''b'' 1 20 2000000 None)\<lparr>createdAt := 2\<rparr>,
       (example_witness ''c'' 1 10 2000000 None)\<lparr>createdAt := 3\<rparr>])
   = [(example_witness ''b'' 1 20 2000000 None)\<lparr>createdAt := 2\<rparr>,
      (example_witness ''c'' 1 10 2000000 None)\<lparr>createdAt := 3\<rparr>]
   \<and> touch ((example_witness ''a'' 1 30 2000000 None)\<lparr>createdAt := 1\<rparr>) = 30
   \<and> touch ((example_witness ''b'' 1 20 2000000 None)\<lparr>createdAt := 2\<rparr>) = 20
   \<and> touch ((example_witness ''c'' 1 10 2000000 None)\<lparr>createdAt := 3\<rparr>) = 10"
  by (simp add: emergencyCleanup_def touch_def example_witness_def Let_def)

text \<open>
  Claim C8, as the code has it. The cleanup timer keeps \<open>min cap n\<close> of the \<open>n\<close> active
  witnesses, and no evicted witness was touched later than a kept one; the emergency store
  (for a positive capacity) does the same with \<open>createdAt\<close> in place of the touch time.
\<close>

theorem capacity_eviction_policies:
  "mset (cleanupTimer_update cap now current)
     + mset (evicted cap (getActiveWitnesses now (decayAll now current)))
     = mset (getActiveWitnesses now (decayAll now current))
   \<and> length (cleanupTimer_update cap now current)
       = min cap (length (getActiveWitnesses now (decayAll now current)))
   \<and> (\<forall>k\<in>set (cleanupTimer_update cap now current).
        \<forall>g\<in>set (evicted cap (getActiveWitnesses now (decayAll now current))).
          touch g \<le> touch k)
   \<and> (0 < cap \<longrightarrow>
        mset (fst (emergencyCleanup cap now current)) + mset (emergency_removed cap now current)
          = mset (filter (\<lambda>w. expiresAt w > now) current)
        \<and> (\<forall>k\<in>set (fst (emergencyCleanup cap now current)).
             \<forall>g\<in>set (emergency_removed cap now current). createdAt g \<le> createdAt k))"
proof -
  let ?active = "getActiveWitnesses now (decayAll now current)"
  have "length (trimToCapacity cap ?active) = min cap (length ?active)"
    by (simp add: trimToCapacity_def sortByTouchDesc_def)
  then show ?thesis
    using trim_split [of cap ?active] trim_order [of _ cap ?active]
      emergency_split [of cap now current] emergency_order [of cap _ now current]
    by (auto simp: cleanupTimer_update_def)
qed

theorem capacity_eviction_policies_witness:
  "cleanupTimer_update 2 1000000
      [example_witness ''a'' 1 10 2000000 None, example_witness ''b'' 1 30 2000000 None,
       example_witness ''c'' 1 20 2000000 None]
    = [example_witness ''b'' 1 30 2000000 None, example_witness ''c'' 1 20 2000000 None]
   \<and> evicted 2 (getActiveWitnesses 1000000 (decayAll 1000000
      [example_witness ''a'' 1 10 2000000 None, example_witness ''b'' 1 30 2000000 None,
       example_witness ''c'' 1 20 2000000 None]))
    = [example_witness ''a'' 1 10 2000000 None]
   \<and> touch (example_witness ''a'' 1 10 2000000 None) \<le> touch (example_witness ''b'' 1 30 2000000 None)
   \<and> touch (example_witness ''a'' 1 10 2000000 None) \<le> touch (example_witness ''c'' 1 20 2000000 None)"
proof -
  let ?ws = "[example_witness ''a'' 1 10 2000000 None, example_witness ''b'' 1 30 2000000 None,
       example_witness ''c'' 1 20 2000000 None]"
  have a: "getActiveWitnesses 1000000 (decayAll 1000000 ?ws) = ?ws"
    by (simp add: getActiveWitnesses_def decayAll_def applyDecay_def
        calculateCurrentWitnessCount_def DEV_MODE_def example_witness_def)
  have s: "sortByTouchDesc ?ws = [example_witness ''b'' 1 30 2000000 None,
       example_witness ''c'' 1 20 2000000 None, example_witness ''a'' 1 10 2000000 None]"
    by (simp add: sortByTouchDesc_def touch_def example_witness_def)
  have k: "cleanupTimer_update 2 1000000 ?ws
      = [example_witness ''b'' 1 30 2000000 None, example_witness ''c'' 1 20 2000000 None]"
    by (simp add: cleanupTimer_update_def a trimToCapacity_def s)
  have e: "evicted 2 (getActiveWitnesses 1000000 (decayAll 1000000 ?ws))
      = [example_witness ''a'' 1 10 2000000 None]"
    by (simp add: a evicted_def s)
  from capacity_eviction_policies [of 2 1000000 ?ws]
  have "\<forall>k\<in>set (cleanupTimer_update 2 1000000 ?ws).
        \<forall>g\<in>set (evicted 2 (getActiveWitnesses 1000000 (decayAll 1000000 ?ws))).
          touch g \<le> touch k"
    by blast
  then have "touch (example_witness ''a'' 1 10 2000000 None) \<le> touch (example_witness ''b'' 1 30 2000000 None)
      \<and> touch (example_witness ''a'' 1 10 2000000 None) \<le> touch (example_witness ''c'' 1 20 2000000 None)"
    unfolding k e by simp
  with k e show ?thesis
    by simp
qed

subsection \<open>Proof of work\<close>

lemma bitlen_between:
  assumes "2 ^ m \<le> a" "a < 2 ^ Suc m"
  shows "bitlen a = int m + 1"
proof (rule antisym)
  show "bitlen a \<le> int m + 1"
    using assms(2) by (simp add: bitlen_le_iff_power nat_add_distrib)
  show "int m + 1 \<le> bitlen a"
    using assms(1) by (simp add: bitlen_ge_iff_power nat_add_distrib)
qed

lemma round_double_at:
  assumes "0 < m" "2 ^ (52 + m) \<le> \<bar>n\<bar>" "\<bar>n\<bar> < 2 ^ (53 + m)"
  shows "round_double n = round_at m n"
proof -
  have b: "bitlen \<bar>n\<bar> = int (52 + m) + 1"
    using assms by (intro bitlen_between) simp_all
  have "(2::int) ^ 53 \<le> 2 ^ (52 + m)"
    using assms(1) by (intro power_increasing) simp_all
  with assms(2) have "\<not> \<bar>n\<bar> < 9007199254740992"
    by simp
  then show ?thesis
    by (simp add: round_double_def b nat_add_distrib)
qed

lemma round_double_fast:
  assumes "\<bar>n\<bar> < 4611686018427387904"
  shows "round_double n = round_fast n"
proof -
  consider "\<bar>n\<bar> < 9007199254740992"
    | "9007199254740992 \<le> \<bar>n\<bar>" "\<bar>n\<bar> < 18014398509481984"
    | "18014398509481984 \<le> \<bar>n\<bar>" "\<bar>n\<bar> < 36028797018963968"
    | "36028797018963968 \<le> \<bar>n\<bar>" "\<bar>n\<bar> < 72057594037927936"
    | "72057594037927936 \<le> \<bar>n\<bar>" "\<bar>n\<bar> < 144115188075855872"
    | "144115188075855872 \<le> \<bar>n\<bar>" "\<bar>n\<bar> < 288230376151711744"
    | "288230376151711744 \<le> \<bar>n\<bar>" "\<bar>n\<bar> < 576460752303423488"
    | "576460752303423488 \<le> \<bar>n\<bar>" "\<bar>n\<bar> < 1152921504606846976"
    | "1152921504606846976 \<le> \<bar>n\<bar>" "\<bar>n\<bar> < 2305843009213693952"
    | "2305843009213693952 \<le> \<bar>n\<bar>" "\<bar>n\<bar> < 4611686018427387904"
    using assms by linarith
  then show ?thesis
  proof cases
    case 1
    then show ?thesis by (simp add: round_double_def round_fast_def)
  next
    case 2
    then show ?thesis
      using round_double_at [of 1 n] by (simp add: round_fast_def)
  next
    case 3
    then show ?thesis
      using round_double_at [of 2 n] by (simp add: round_fast_def)
  next
    case 4
    then show ?thesis
      using round_double_at [of 3 n] by (simp add: round_fast_def)
  next
    case 5
    then show ?thesis
      using round_double_at [of 4 n] by (simp add: round_fast_def)
  next
    case 6
    then show ?thesis
      using round_double_at [of 5 n] by (simp add: round_fast_def)
  next
    case 7
    then show ?thesis
      using round_double_at [of 6 n] by (simp add: round_fast_def)
  next
    case 8
    then show ?thesis
      using round_double_at [of 7 n] by (simp add: round_fast_def)
  next
    case 9
    then show ?thesis
      using round_double_at [of 8 n] by (simp add: round_fast_def)
  next
    case 10
    then show ?thesis
      using round_double_at [of 9 n] by (simp add: round_fast_def)
  qed
qed

lemma funpow_numeral_step: "(f ^^ numeral k) v = (f ^^ pred_numeral k) (f v)"
  by (simp add: numeral_eq_Suc funpow_swap1)

lemma funpow_fixed: "g v = v \<Longrightarrow> (g ^^ n) v = v"
  by (induction n) simp_all

lemma funpow_via_cycle:
  assumes "(f ^^ k) h = e" "(f ^^ p) e = e" "(f ^^ r) e = v"
  shows "(f ^^ (r + p * q + k)) h = v"
proof -
  have "((f ^^ p) ^^ q) e = e"
    by (rule funpow_fixed [of "f ^^ p" e, OF assms(2)])
  then have "(f ^^ (p * q)) e = e"
    by (simp add: funpow_mult)
  then show ?thesis
    using assms(1,3) by (simp add: funpow_add)
qed

lemmas mix_eval = funpow_numeral_step mix_def round_double_fast round_fast_def round_at_def
  to_int32_def Let_def

text \<open>
  The mixing rounds lose low-order bits to rounding and fall into short cycles; the values
  below enter a cycle of length 25, which gives the result of 10000 rounds.
\<close>

lemma cycle_a: "(mix ^^ 25) (- 137920512) = - 137920512"
  by (simp add: mix_eval)

lemma cycle_b: "(mix ^^ 25) 1174710272 = 1174710272"
  by (simp add: mix_eval)

lemma entry_zhno11: "(mix ^^ 191) (- 702779441) = - 137920512"
  by (simp add: mix_eval)

lemma entry_zhno12: "(mix ^^ 114) (- 702779440) = - 137920512"
  by (simp add: mix_eval)

lemma entry_cctm1: "(mix ^^ 2) 94492792 = 1174710272"
  by (simp add: mix_eval)

lemma rest_zhno11: "(mix ^^ 9) (- 137920512) = 1324301568"
  by (simp add: mix_eval)

lemma rest_zhno12: "(mix ^^ 11) (- 137920512) = 327591168"
  by (simp add: mix_eval)

lemma rest_cctm1: "(mix ^^ 23) 1174710272 = - 1216428032"
  by (simp add: mix_eval)

lemma pow_value_zhno11: "pow_value ''zhno11'' = 1324301568"
proof -
  have "foldl roll 0 ''zhno11'' = - 702779441"
    by (simp add: roll_def to_int32_def)
  moreover have "(10000::nat) = 9 + 25 * 392 + 191"
    by simp
  ultimately show ?thesis
    using funpow_via_cycle [OF entry_zhno11 cycle_a rest_zhno11, of 392]
    by (simp only: pow_value_def)
qed

lemma pow_value_zhno12: "pow_value ''zhno12'' = 327591168"
proof -
  have "foldl roll 0 ''zhno12'' = - 702779440"
    by (simp add: roll_def to_int32_def)
  moreover have "(10000::nat) = 11 + 25 * 395 + 114"
    by simp
  ultimately show ?thesis
    using funpow_via_cycle [OF entry_zhno12 cycle_a rest_zhno12, of 395]
    by (simp only: pow_value_def)
qed

lemma pow_value_cctm1: "pow_value ''cctm1'' = - 1216428032"
proof -
  have "foldl roll 0 ''cctm1'' = 94492792"
    by (simp add: roll_def to_int32_def)
  moreover have "(10000::nat) = 23 + 25 * 399 + 2"
    by simp
  ultimately show ?thesis
    using funpow_via_cycle [OF entry_cctm1 cycle_b rest_cctm1, of 399]
    by (simp only: pow_value_def)
qed

text \<open>The nonce returned is one more than the nonce that was hashed.\<close>

lemma compute_loop_hash:
  assumes "compute_loop t startTime n clock = Some p"
  shows "n < nonce p \<and> hash p = js_toString16 (pow_value (t @ js_number_to_string (nonce p - 1)))"
  using assms
proof (induction clock arbitrary: n)
  case Nil
  then show ?case by simp
next
  case (Cons reading later)
  show ?case
  proof (cases "reading - startTime \<ge> 1000")
    case True
    with Cons.prems show ?thesis
      by (auto simp: Let_def)
  next
    case False
    with Cons.prems have "compute_loop t startTime (n + 1) later = Some p"
      by (simp add: Let_def)
    from Cons.IH [OF this] show ?thesis
      by simp
  qed
qed

text \<open>
  Claim C3. \<open>computeProofOfWork\<close> increments the nonce before it resolves, so the proof
  carries the hash of \<open>text + 11\<close> with nonce 12, and \<open>verifyProofOfWork\<close>, which hashes
  \<open>text + 12\<close>, rejects the proof for the very text it was computed for.
\<close>

theorem proof_round_trip_fails:
  "computeProofOfWork ''zhno'' [0, 80, 160, 240, 320, 400, 480, 560, 640, 720, 800, 880, 1000]
     = Some \<lparr>nonce = 12, hash = ''4eef3d00''\<rparr>
   \<and> \<not> verifyProofOfWork ''zhno'' \<lparr>nonce = 12, hash = ''4eef3d00''\<rparr>"
proof -
  have d11: "js_number_to_string 11 = ''11''"
    and d12: "js_number_to_string 12 = ''12''"
    by (simp_all add: js_number_to_string_def dec_digits.simps)
  have h11: "js_toString16 1324301568 = ''4eef3d00''"
    and h12: "js_toString16 327591168 = ''1386a500''"
    by (simp_all add: js_toString16_def hex_digits.simps)
  have "computeProofOfWork ''zhno'' [0, 80, 160, 240, 320, 400, 480, 560, 640, 720, 800, 880, 1000]
     = Some \<lparr>nonce = 12, hash = js_toString16 (pow_value (''zhno'' @ js_number_to_string 11))\<rparr>"
    by (simp add: computeProofOfWork_def Let_def)
  moreover have "\<not> verifyProofOfWork ''zhno'' \<lparr>nonce = 12, hash = ''4eef3d00''\<rparr>"
    by (simp add: verifyProofOfWork_def d12 pow_value_zhno12 h12)
  ultimately show ?thesis
    by (simp add: d11 pow_value_zhno11 h11)
qed

text \<open>
  Claim C9. The hash string is \<open>hash.toString(16)\<close> of the signed value: for a negative
  accumulator it is a minus sign and the magnitude, not the unsigned 32-bit encoding that
  the sibling implementations produce with \<open>>>> 0\<close>.
\<close>

theorem negative_hash_is_signed_hex:
  "computeProofOfWork ''cctm'' [0, 500, 1000] = Some \<lparr>nonce = 2, hash = ''-48813800''\<rparr>
   \<and> pow_value ''cctm1'' = - 1216428032
   \<and> js_toString16_unsigned (pow_value ''cctm1'') = ''b77ec800''"
proof -
  have d: "js_number_to_string 1 = ''1''"
    by (simp add: js_number_to_string_def dec_digits.simps)
  have "js_toString16 (- 1216428032) = ''-48813800''"
    by (simp add: js_toString16_def hex_digits.simps)
  moreover have "js_toString16_unsigned (- 1216428032) = ''b77ec800''"
    by (simp add: js_toString16_unsigned_def hex_digits.simps)
  moreover have "computeProofOfWork ''cctm'' [0, 500, 1000]
     = Some \<lparr>nonce = 2, hash = js_toString16 (pow_value (''cctm'' @ js_number_to_string 1))\<rparr>"
    by (simp add: computeProofOfWork_def Let_def)
  ultimately show ?thesis
    by (simp add: d pow_value_cctm1)
qed

end
